theory Spec2Isabelle
  imports Main
begin

section \<open>Values and data of BrowseTabContent.vue\<close>

text \<open>
  The component keeps page tokens as \<^verbatim>\<open>string | number | null\<close> and reads them from
  \<^verbatim>\<open>tab.queryParams\<close>, a \<^verbatim>\<open>Record<string, string | number | null>\<close> whose keys may be
  missing. A value of that kind is a \<open>jsval\<close>; page numbers and ids are integral.
\<close>

datatype jsval = JUndefined | JNull | JNum int | JStr string

text \<open>\<^verbatim>\<open>v !== undefined && v !== null\<close>\<close>

fun present :: "jsval \<Rightarrow> bool" where
  "present JUndefined = False"
| "present JNull = False"
| "present (JNum n) = True"
| "present (JStr s) = True"

text \<open>JavaScript truthiness, as used by \<^verbatim>\<open>serviceFromQuery || ''\<close>.\<close>

fun truthy :: "jsval \<Rightarrow> bool" where
  "truthy JUndefined = False"
| "truthy JNull = False"
| "truthy (JNum n) = (n \<noteq> 0)"
| "truthy (JStr s) = (s \<noteq> [])"

text \<open>\<^verbatim>\<open>v ?? null\<close>\<close>

fun or_null :: "jsval \<Rightarrow> jsval" where
  "or_null JUndefined = JNull"
| "or_null v = v"

text \<open>\<^verbatim>\<open>typeof v === 'string' && v.length > 0\<close>\<close>

fun nonempty_string :: "jsval \<Rightarrow> bool" where
  "nonempty_string (JStr s) = (s \<noteq> [])"
| "nonempty_string v = False"

record item =
  item_id :: int
  item_src :: string

record query_params =
  service :: jsval
  page :: jsval
  next_token :: jsval

record tab =
  tab_id :: int
  queryParams :: "query_params option"
  fileIds :: "int list option"
  itemsData :: "item list option"

datatype reaction = Love | Like | Dislike | Funny

text \<open>
  The tiling collaborator (\<^verbatim>\<open>Masonry\<close> of @wyxos/vibe) is outside the repository. The
  component probes it for optional methods (\<^verbatim>\<open>typeof m.restore === 'function'\<close>) and its
  item list is two-way bound to the component's \<^verbatim>\<open>items\<close> (\<^verbatim>\<open>v-model:items\<close>), so what a
  method does to the list by the time it returns is a parameter: an optional method is
  \<open>None\<close> when the instance does not offer it.
\<close>

record masonry =
  isLoading :: bool
  restore_fn :: "(item \<Rightarrow> int \<Rightarrow> item list \<Rightarrow> item list) option"
  add_fn :: "(item \<Rightarrow> int \<Rightarrow> item list \<Rightarrow> item list) option"
  insert_fn :: "(item \<Rightarrow> int \<Rightarrow> item list \<Rightarrow> item list) option"
  has_refreshLayout :: bool
  remove_fn :: "item \<Rightarrow> item list \<Rightarrow> item list"

text \<open>
  The restore callback built by \<^verbatim>\<open>handleMasonryReaction\<close> closes over the reacted item and
  its index; the queue receives it with the other arguments of \<^verbatim>\<open>queueReaction\<close>.
\<close>

record restore_cb =
  cb_item :: item
  cb_index :: int

record queue_call =
  q_fileId :: int
  q_type :: reaction
  q_previewUrl :: "string option"
  q_restore :: "restore_cb option"
  q_tabId :: "int option"
  q_itemIndex :: int
  q_item :: "item option"

datatype ref_name =
  RSelectedService | RPendingRestoreNextCursor | RItemsData
  | RCurrentPage | RNextCursor | RLoadAtPage | RItems

text \<open>
  Every call into a collaborator and every assignment to a reactive ref is recorded, in
  program order, in the trace of the state.
\<close>

datatype event =
  ECloseViewer | ECancelLoad | EDestroy
  | ESetIsTabRestored bool | EAssign ref_name
  | ETabDataLoadingChange bool | ELoadTabItems int | EConsoleError string
  | ENextTick | ETimeout50
  | EInit "item list" jsval jsval | ERequestAnimationFrame
  | EEmitLoading bool | EOnLoadingChange bool
  | ERefreshLayout "item list"
  | EMasonryRestore item int | EMasonryAdd item int | EMasonryInsert item int
  | EMasonryRemove item
  | EOpenFromClick | EPreventDefault | EStopPropagation
  | EQueueReaction queue_call | EOnReaction int reaction

record state =
  tab :: "tab option"
  items :: "item list"
  masonry :: "masonry option"
  fileViewer :: bool
  masonryContainer :: bool
  currentPage :: jsval
  nextCursor :: jsval
  loadAtPage :: jsval
  isTabRestored :: bool
  pendingRestoreNextCursor :: jsval
  selectedService :: jsval
  trace :: "event list"

text \<open>
  What the surroundings answer: the \<^verbatim>\<open>loadTabItems\<close> promise resolves (\<open>Inr\<close>) or rejects
  (\<open>Inl\<close>), the optional props are given or not, and \<open>masonry_after k\<close> is the value of the
  \<^verbatim>\<open>masonry\<close> template ref as read after \<open>k\<close> polling waits.
\<close>

record env =
  loadTabItems :: "int \<Rightarrow> string + item list"
  has_onTabDataLoadingChange :: bool
  has_onLoadingChange :: bool
  masonry_after :: "nat \<Rightarrow> masonry option"

datatype 'a outcome = Completed 'a | Rejected string 'a

definition log :: "event \<Rightarrow> state \<Rightarrow> state" where
  "log e s = s\<lparr>trace := trace s @ [e]\<rparr>"

section \<open>initializeTab\<close>

text \<open>Lines 343-346: \<^verbatim>\<open>if (fileViewer.value) fileViewer.value.close()\<close>.\<close>

definition closeFileViewer :: "state \<Rightarrow> state" where
  "closeFileViewer s = (if fileViewer s then log ECloseViewer s else s)"

text \<open>Lines 348-354 and 472-478: cancel when loading, then destroy.\<close>

definition destroyMasonry :: "state \<Rightarrow> state" where
  "destroyMasonry s =
     (case masonry s of
        None \<Rightarrow> s
      | Some m \<Rightarrow> log EDestroy (if isLoading m then log ECancelLoad s else s))"

definition qp :: "(query_params \<Rightarrow> jsval) \<Rightarrow> tab \<Rightarrow> jsval" where
  "qp f t = (case queryParams t of None \<Rightarrow> JUndefined | Some q \<Rightarrow> f q)"

definition opt_length :: "'a list option \<Rightarrow> nat" where
  "opt_length xs = (case xs of None \<Rightarrow> 0 | Some ys \<Rightarrow> length ys)"

text \<open>Line 356.\<close>

definition tabHasRestorableItems :: "tab \<Rightarrow> bool" where
  "tabHasRestorableItems t = (opt_length (fileIds t) > 0 \<or> opt_length (itemsData t) > 0)"

text \<open>Lines 357-366.\<close>

definition restoreFlags :: "tab \<Rightarrow> state \<Rightarrow> state" where
  "restoreFlags t s =
     (let s1 = log (ESetIsTabRestored (tabHasRestorableItems t))
                 (s\<lparr>isTabRestored := tabHasRestorableItems t\<rparr>);
          s2 = log (EAssign RSelectedService)
                 (s1\<lparr>selectedService :=
                        (if truthy (qp service t) then qp service t else JStr [])\<rparr>)
      in log (EAssign RPendingRestoreNextCursor)
           (s2\<lparr>pendingRestoreNextCursor :=
                  (if tabHasRestorableItems t then or_null (qp next_token t) else JNull)\<rparr>))"

definition set_itemsData :: "item list \<Rightarrow> state \<Rightarrow> state" where
  "set_itemsData xs s =
     log (EAssign RItemsData) (s\<lparr>tab := map_option (\<lambda>t. t\<lparr>itemsData := Some xs\<rparr>) (tab s)\<rparr>)"

definition notifyTabDataLoading :: "env \<Rightarrow> bool \<Rightarrow> state \<Rightarrow> state" where
  "notifyTabDataLoading e b s =
     (if has_onTabDataLoadingChange e then log (ETabDataLoadingChange b) s else s)"

text \<open>Lines 370-376, the body of \<^verbatim>\<open>try\<close>: a rejected promise leaves it by an exception.\<close>

definition tryLoad :: "env \<Rightarrow> tab \<Rightarrow> state \<Rightarrow> state outcome" where
  "tryLoad e t s =
     (let s1 = log (ELoadTabItems (tab_id t)) (notifyTabDataLoading e True s)
      in case loadTabItems e (tab_id t) of
           Inl err \<Rightarrow> Rejected err s1
         | Inr loadedItems \<Rightarrow> Completed (set_itemsData loadedItems s1))"

text \<open>Lines 377-379, \<^verbatim>\<open>catch (error)\<close>.\<close>

fun catchLoad :: "state outcome \<Rightarrow> state outcome" where
  "catchLoad (Rejected err s) = Completed (set_itemsData [] (log (EConsoleError err) s))"
| "catchLoad (Completed s) = Completed s"

text \<open>Lines 380-385, \<^verbatim>\<open>finally\<close>: runs on either outcome and keeps it.\<close>

fun finallyLoad :: "env \<Rightarrow> state outcome \<Rightarrow> state outcome" where
  "finallyLoad e (Completed s) = Completed (notifyTabDataLoading e False s)"
| "finallyLoad e (Rejected err s) = Rejected err (notifyTabDataLoading e False s)"

text \<open>Lines 368-388.\<close>

definition loadItems :: "env \<Rightarrow> tab \<Rightarrow> state \<Rightarrow> state outcome" where
  "loadItems e t s =
     (if opt_length (fileIds t) > 0 then finallyLoad e (catchLoad (tryLoad e t s))
      else Completed (set_itemsData [] s))"

text \<open>Lines 390-402.\<close>

definition restorePagination :: "tab \<Rightarrow> state \<Rightarrow> state" where
  "restorePagination t s =
     (let s1 = log (EAssign RCurrentPage)
                 (s\<lparr>currentPage := (if present (qp page t) then qp page t else JNum 1)\<rparr>)
      in log (EAssign RNextCursor)
           (s1\<lparr>nextCursor := (if present (qp next_token t) then qp next_token t else JNull)\<rparr>))"

text \<open>\<^verbatim>\<open>tab.itemsData && tab.itemsData.length > 0\<close>, read after the load.\<close>

definition hasItemsData :: "state \<Rightarrow> bool" where
  "hasItemsData s =
     (case tab s of None \<Rightarrow> False | Some t \<Rightarrow> opt_length (itemsData t) > 0)"

definition currentItemsData :: "state \<Rightarrow> item list" where
  "currentItemsData s =
     (case tab s of None \<Rightarrow> [] | Some t \<Rightarrow> (case itemsData t of None \<Rightarrow> [] | Some xs \<Rightarrow> xs))"

text \<open>Lines 404-421.\<close>

definition setLoadAtPage :: "tab \<Rightarrow> state \<Rightarrow> state" where
  "setLoadAtPage t s =
     (let hasService = nonempty_string (qp service t);
          v = (if hasItemsData s then JNull
               else if hasService then (if present (qp page t) then qp page t else JNum 1)
               else JNull);
          s1 = log (EAssign RLoadAtPage) (s\<lparr>loadAtPage := v\<rparr>)
      in log (EAssign RItems) (s1\<lparr>items := []\<rparr>))"

text \<open>
  Lines 428-433: \<^verbatim>\<open>while (!masonry.value && retries < 20)\<close>, one tick and one 50 ms
  timeout per round. The result is the final value of \<^verbatim>\<open>retries\<close>.
\<close>

function waitForMasonry :: "env \<Rightarrow> nat \<Rightarrow> state \<Rightarrow> nat \<times> state" where
  "waitForMasonry e retries s =
     (if Option.is_none (masonry_after e retries) \<and> retries < 20
      then waitForMasonry e (Suc retries) (log ETimeout50 (log ENextTick s))
      else (retries, s))"
  by pat_completeness auto
termination
  by (relation "measure (\<lambda>(e, retries, s). 20 - retries)") auto

declare waitForMasonry.simps [simp del]

text \<open>Lines 436-458, with the instance found by the last test of the loop.\<close>

definition initMasonry :: "tab \<Rightarrow> masonry option \<Rightarrow> state \<Rightarrow> state" where
  "initMasonry t mo s =
     (case mo of
        None \<Rightarrow> s\<lparr>masonry := None\<rparr>
      | Some m \<Rightarrow>
          (let pageValue = (if present (qp page t) then qp page t else JNum 1);
               nextValue = (if present (qp next_token t) then qp next_token t else JNull);
               s0 = s\<lparr>masonry := Some m\<rparr>;
               s1 = (if present pageValue
                     then log (EAssign RCurrentPage) (s0\<lparr>currentPage := pageValue\<rparr>) else s0);
               s2 = (if present nextValue
                     then log (EAssign RNextCursor) (s1\<lparr>nextCursor := nextValue\<rparr>) else s1)
           in log ERequestAnimationFrame
                (log ENextTick (log (EInit (currentItemsData s2) pageValue nextValue) s2))))"

text \<open>Lines 423-459.\<close>

definition awaitMasonry :: "env \<Rightarrow> tab \<Rightarrow> state \<Rightarrow> state" where
  "awaitMasonry e t s =
     (let s1 = log ENextTick s
      in if hasItemsData s1
         then (case waitForMasonry e 0 s1 of (r, s2) \<Rightarrow> initMasonry t (masonry_after e r) s2)
         else s1)"

text \<open>Line 461.\<close>

definition finishInit :: "state \<Rightarrow> state" where
  "finishInit s = log (ESetIsTabRestored False) (s\<lparr>isTabRestored := False\<rparr>)"

text \<open>
  Lines 339-462. The awaits are points where the component yields; the model runs the
  function alone, with the surroundings answering through \<open>env\<close>.
\<close>

definition initializeTab :: "env \<Rightarrow> state \<Rightarrow> state outcome" where
  "initializeTab e s =
     (case tab s of
        None \<Rightarrow> Completed s
      | Some t \<Rightarrow>
          (case loadItems e t (restoreFlags t (destroyMasonry (closeFileViewer s))) of
             Rejected err s1 \<Rightarrow> Rejected err s1
           | Completed s1 \<Rightarrow>
               Completed (finishInit (awaitMasonry e t (setLoadAtPage t (restorePagination t s1))))))"

text \<open>Lines 465-479.\<close>

definition onUnmounted :: "env \<Rightarrow> state \<Rightarrow> state" where
  "onUnmounted e s =
     (let s1 = log (EEmitLoading False) s;
          s2 = (if has_onLoadingChange e then log (EOnLoadingChange False) s1 else s1)
      in destroyMasonry s2)"

text \<open>
  Unmounting the component. Vue first unmounts the subtree, which resets the template
  refs of the children to null (\<^verbatim>\<open>masonry\<close>, line 515; \<^verbatim>\<open>fileViewer\<close>, line 572; the
  container of line 513), and only then runs the hooks registered with \<^verbatim>\<open>onUnmounted\<close>.
\<close>

definition unmountComponent :: "env \<Rightarrow> state \<Rightarrow> state" where
  "unmountComponent e s =
     onUnmounted e (s\<lparr>masonry := None, fileViewer := False, masonryContainer := False\<rparr>)"

section \<open>Array operations of the reaction handlers\<close>

text \<open>\<^verbatim>\<open>Array.prototype.findIndex\<close>: the first index whose element satisfies the test, or -1.\<close>

fun findIndexFrom :: "('a \<Rightarrow> bool) \<Rightarrow> int \<Rightarrow> 'a list \<Rightarrow> int" where
  "findIndexFrom P k [] = - 1"
| "findIndexFrom P k (x # xs) = (if P x then k else findIndexFrom P (k + 1) xs)"

definition findIndex :: "('a \<Rightarrow> bool) \<Rightarrow> 'a list \<Rightarrow> int" where
  "findIndex P xs = findIndexFrom P 0 xs"

text \<open>
  \<^verbatim>\<open>Array.prototype.splice\<close> normalises its start: a negative start counts from the end
  and is raised to 0, a start beyond the end is lowered to the length.
\<close>

definition spliceStart :: "int \<Rightarrow> nat \<Rightarrow> nat" where
  "spliceStart start len =
     (if start < 0 then nat (max (int len + start) 0) else min (nat start) len)"

text \<open>\<^verbatim>\<open>xs.splice(start, 0, x)\<close>\<close>

definition spliceInsert :: "int \<Rightarrow> 'a \<Rightarrow> 'a list \<Rightarrow> 'a list" where
  "spliceInsert start x xs =
     take (spliceStart start (length xs)) xs @ [x] @ drop (spliceStart start (length xs)) xs"

text \<open>\<^verbatim>\<open>xs.splice(start, 1)\<close>\<close>

definition spliceDelete1 :: "int \<Rightarrow> 'a list \<Rightarrow> 'a list" where
  "spliceDelete1 start xs =
     take (spliceStart start (length xs)) xs @ drop (Suc (spliceStart start (length xs))) xs"

definition hasId :: "int \<Rightarrow> item \<Rightarrow> bool" where
  "hasId n i = (item_id i = n)"

section \<open>Reactions from the masonry grid\<close>

text \<open>\<^verbatim>\<open>masonry.value.remove(it)\<close>: the call, and what it has done to the bound list.\<close>

definition masonryRemove :: "masonry \<Rightarrow> item \<Rightarrow> state \<Rightarrow> state" where
  "masonryRemove m it s = log (EMasonryRemove it) (s\<lparr>items := remove_fn m it (items s)\<rparr>)"

text \<open>Lines 231-239, the fallback of the restore callback.\<close>

definition restoreFallback :: "restore_cb \<Rightarrow> state \<Rightarrow> state" where
  "restoreFallback cb s =
     (let clampedIndex = min (cb_index cb) (int (length (items s)));
          s1 = s\<lparr>items := spliceInsert clampedIndex (cb_item cb) (items s)\<rparr>
      in case masonry s1 of
           None \<Rightarrow> s1
         | Some m \<Rightarrow>
             (if has_refreshLayout m
              then log (ERefreshLayout (items s1)) (log ENextTick s1)
              else s1))"

text \<open>Lines 213-242: the callback \<^verbatim>\<open>restoreItem\<close>, run by the queue on cancel.\<close>

definition restoreItem :: "restore_cb \<Rightarrow> int \<Rightarrow> (int \<Rightarrow> bool) \<Rightarrow> state \<Rightarrow> state" where
  "restoreItem cb restoreTabId isTabActive s =
     (if \<not> isTabActive restoreTabId then s
      else if findIndex (hasId (item_id (cb_item cb))) (items s) \<noteq> - 1 then s
      else
        (case masonry s of
           None \<Rightarrow> restoreFallback cb s
         | Some m \<Rightarrow>
             (case restore_fn m of
                Some f \<Rightarrow>
                  log (EMasonryRestore (cb_item cb) (cb_index cb))
                    (s\<lparr>items := f (cb_item cb) (cb_index cb) (items s)\<rparr>)
              | None \<Rightarrow>
                  (case add_fn m of
                     Some f \<Rightarrow>
                       log (EMasonryAdd (cb_item cb) (cb_index cb))
                         (s\<lparr>items := f (cb_item cb) (cb_index cb) (items s)\<rparr>)
                   | None \<Rightarrow>
                       (case insert_fn m of
                          Some f \<Rightarrow>
                            log (EMasonryInsert (cb_item cb) (cb_index cb))
                              (s\<lparr>items := f (cb_item cb) (cb_index cb) (items s)\<rparr>)
                        | None \<Rightarrow> restoreFallback cb s)))))"

text \<open>Lines 203-254. \<^verbatim>\<open>removeItem\<close> is the caller's closure, \<open>None\<close> when it is not given.\<close>

definition handleMasonryReaction ::
  "int \<Rightarrow> reaction \<Rightarrow> (item \<Rightarrow> state \<Rightarrow> state) option \<Rightarrow> state \<Rightarrow> state" where
  "handleMasonryReaction fileId ty removeItem s =
     (let found = find (hasId fileId) (items s);
          itemIndex = (case found of None \<Rightarrow> - 1 | Some it \<Rightarrow> findIndex (hasId fileId) (items s));
          tabId = map_option tab_id (tab s);
          restore =
            (case found of
               None \<Rightarrow> None
             | Some it \<Rightarrow>
                 (if tabId \<noteq> None \<and> itemIndex \<noteq> - 1
                  then Some \<lparr>cb_item = it, cb_index = itemIndex\<rparr> else None));
          s1 = (case found of
                  None \<Rightarrow> s
                | Some it \<Rightarrow> (case removeItem of None \<Rightarrow> s | Some rm \<Rightarrow> rm it s));
          s2 = log (EQueueReaction
                      \<lparr>q_fileId = fileId, q_type = ty, q_previewUrl = map_option item_src found,
                       q_restore = restore, q_tabId = tabId, q_itemIndex = itemIndex,
                       q_item = found\<rparr>) s1
      in log (EOnReaction fileId ty) s2)"

text \<open>Lines 189-196, the closure \<^verbatim>\<open>removeFn\<close>.\<close>

definition removeFn :: "item \<Rightarrow> state \<Rightarrow> state" where
  "removeFn itemToRemove s =
     (case masonry s of
        None \<Rightarrow> s
      | Some m \<Rightarrow>
          (case find (hasId (item_id itemToRemove)) (items s) of
             None \<Rightarrow> s
           | Some masonryItem \<Rightarrow> masonryRemove m masonryItem s))"

text \<open>
  What the DOM answers to \<^verbatim>\<open>handleAltClickOnMasonry\<close>: no target, a target outside every
  \<^verbatim>\<open>.masonry-item\<close> of the container, or a tile with its \<^verbatim>\<open>data-item-id\<close> attribute and the
  source of its \<^verbatim>\<open>img\<close> child (\<open>None\<close> when it has none). The attribute is given as
  \<^verbatim>\<open>Number\<close> reads it: missing or empty, not a number, or a number.
\<close>

datatype id_attr = AttrMissing | AttrNaN | AttrNum int

datatype dom_target = NoTarget | OutsideTile | Tile id_attr "string option"

datatype ev_kind = Click | ContextMenu | MouseDown

record mouse_event =
  ev_type :: ev_kind
  button :: int
  altKey :: bool
  target :: dom_target

text \<open>\<^verbatim>\<open>s.split('?')[0].split('#')[0]\<close>\<close>

definition stripUrl :: "string \<Rightarrow> string" where
  "stripUrl s = takeWhile (\<lambda>c. c \<noteq> CHR ''#'') (takeWhile (\<lambda>c. c \<noteq> CHR ''?'') s)"

fun startsWith :: "string \<Rightarrow> string \<Rightarrow> bool" where
  "startsWith s [] = True"
| "startsWith [] (c # cs) = False"
| "startsWith (d # ds) (c # cs) = (d = c \<and> startsWith ds cs)"

text \<open>\<^verbatim>\<open>String.prototype.includes\<close>\<close>

fun strIncludes :: "string \<Rightarrow> string \<Rightarrow> bool" where
  "strIncludes [] sub = (sub = [])"
| "strIncludes (c # cs) sub = (startsWith (c # cs) sub \<or> strIncludes cs sub)"

text \<open>Lines 147-151, the test of the fallback lookup by image source.\<close>

definition srcMatches :: "string \<Rightarrow> item \<Rightarrow> bool" where
  "srcMatches src i =
     (let itemSrc = stripUrl (item_src i); baseSrc = stripUrl src
      in baseSrc = itemSrc \<or> strIncludes baseSrc itemSrc \<or> strIncludes itemSrc baseSrc)"

text \<open>Lines 170-183.\<close>

definition reactionType :: "mouse_event \<Rightarrow> reaction option" where
  "reactionType e =
     (if button e = 0 \<or> (ev_type e = Click \<and> button e = 0) then Some Like
      else if button e = 2 \<or> ev_type e = ContextMenu then Some Dislike
      else if button e = 1 then Some Love
      else None)"

text \<open>Lines 165-200.\<close>

definition handleAltClickReaction :: "mouse_event \<Rightarrow> int \<Rightarrow> state \<Rightarrow> state" where
  "handleAltClickReaction e fileId s =
     (let s1 = log EStopPropagation (log EPreventDefault s)
      in case reactionType e of
           None \<Rightarrow> s1
         | Some ty \<Rightarrow>
             (case find (hasId fileId) (items s1) of
                None \<Rightarrow> s1
              | Some it \<Rightarrow> handleMasonryReaction fileId ty (Some removeFn) s1))"

text \<open>Lines 129-163.\<close>

definition handleAltClickOnMasonry :: "mouse_event \<Rightarrow> state \<Rightarrow> state" where
  "handleAltClickOnMasonry e s =
     (if \<not> masonryContainer s then s
      else
        (case target e of
           NoTarget \<Rightarrow> s
         | OutsideTile \<Rightarrow> s
         | Tile attr img \<Rightarrow>
             (case attr of
                AttrMissing \<Rightarrow>
                  (case img of
                     None \<Rightarrow> s
                   | Some src \<Rightarrow>
                       (case find (srcMatches src) (items s) of
                          None \<Rightarrow> s
                        | Some it \<Rightarrow> handleAltClickReaction e (item_id it) s))
              | AttrNaN \<Rightarrow> s
              | AttrNum fileId \<Rightarrow> handleAltClickReaction e fileId s)))"

text \<open>Lines 109-120.\<close>

definition onMasonryClick :: "mouse_event \<Rightarrow> state \<Rightarrow> state" where
  "onMasonryClick e s =
     (if altKey e then handleAltClickOnMasonry e s
      else if button e = 0 \<or> (ev_type e = Click \<and> button e = 0)
      then (if fileViewer s then log EOpenFromClick s else s)
      else s)"

text \<open>Lines 122-127.\<close>

definition onMasonryMouseDown :: "mouse_event \<Rightarrow> state \<Rightarrow> state" where
  "onMasonryMouseDown e s =
     (if altKey e \<and> button e = 1 then handleAltClickOnMasonry e s else s)"

text \<open>
  Line 514, the listeners of the container: \<^verbatim>\<open>@click\<close>, \<^verbatim>\<open>@contextmenu.prevent\<close> (which
  prevents the default before the handler runs) and \<^verbatim>\<open>@mousedown\<close>.
\<close>

definition dispatchMouse :: "mouse_event \<Rightarrow> state \<Rightarrow> state" where
  "dispatchMouse e s =
     (case ev_type e of
        Click \<Rightarrow> onMasonryClick e s
      | ContextMenu \<Rightarrow> onMasonryClick e (log EPreventDefault s)
      | MouseDown \<Rightarrow> onMasonryMouseDown e s)"

text \<open>
  Lines 574-591, the closure given to the FileViewer as \<^verbatim>\<open>remove-from-masonry\<close>. It is
  written in the template, where the ref \<^verbatim>\<open>masonry\<close> is unwrapped (as in \<^verbatim>\<open>items.find\<close> and
  \<^verbatim>\<open>masonry?.isLoading\<close> beside it), so \<^verbatim>\<open>masonry.value\<close> reads the property \<^verbatim>\<open>value\<close> of the
  instance. With the ref null that read throws a TypeError before the list is touched.
  A mounted instance has no property of that name, the test of line 576 is false,
  \<^verbatim>\<open>masonry.remove\<close> is not called, and only the splice of lines 588-591 acts.
\<close>

definition removeFromMasonry :: "item \<Rightarrow> state \<Rightarrow> state outcome" where
  "removeFromMasonry it s =
     (case masonry s of
        None \<Rightarrow> Rejected ''TypeError'' s
      | Some m \<Rightarrow>
          (let itemIndex = findIndex (hasId (item_id it)) (items s)
           in Completed
                (if itemIndex \<noteq> - 1 then s\<lparr>items := spliceDelete1 itemIndex (items s)\<rparr>
                 else s)))"

text \<open>The state a call has left, whether it returned or threw.\<close>

fun stateOf :: "'a outcome \<Rightarrow> 'a" where
  "stateOf (Completed s) = s"
| "stateOf (Rejected err s) = s"

section \<open>Describing a run\<close>

text \<open>
  The values and the events a run of \<^verbatim>\<open>initializeTab\<close> is expected to produce, written
  out so that the theorems below can compare the run with them.
\<close>

definition pageValue :: "tab \<Rightarrow> jsval" where
  "pageValue t = (if present (qp page t) then qp page t else JNum 1)"

definition nextValue :: "tab \<Rightarrow> jsval" where
  "nextValue t = (if present (qp next_token t) then qp next_token t else JNull)"

definition loadedItems :: "env \<Rightarrow> tab \<Rightarrow> item list" where
  "loadedItems e t =
     (if opt_length (fileIds t) > 0
      then (case loadTabItems e (tab_id t) of Inl err \<Rightarrow> [] | Inr xs \<Rightarrow> xs)
      else [])"

definition loadEvents :: "env \<Rightarrow> tab \<Rightarrow> event list" where
  "loadEvents e t =
     (if opt_length (fileIds t) > 0
      then (if has_onTabDataLoadingChange e then [ETabDataLoadingChange True] else [])
           @ [ELoadTabItems (tab_id t)]
           @ (case loadTabItems e (tab_id t) of
                Inl err \<Rightarrow> [EConsoleError err, EAssign RItemsData]
              | Inr xs \<Rightarrow> [EAssign RItemsData])
           @ (if has_onTabDataLoadingChange e then [ETabDataLoadingChange False] else [])
      else [EAssign RItemsData])"

definition waitEvents :: "nat \<Rightarrow> event list" where
  "waitEvents n = concat (replicate n [ENextTick, ETimeout50])"

definition teardownEvents :: "state \<Rightarrow> event list" where
  "teardownEvents s =
     (if fileViewer s then [ECloseViewer] else [])
     @ (case masonry s of
          None \<Rightarrow> []
        | Some m \<Rightarrow> (if isLoading m then [ECancelLoad] else []) @ [EDestroy])"

definition initEvents :: "tab \<Rightarrow> masonry option \<Rightarrow> item list \<Rightarrow> event list" where
  "initEvents t mo xs =
     (case mo of
        None \<Rightarrow> []
      | Some m \<Rightarrow>
          [EAssign RCurrentPage]
          @ (if present (nextValue t) then [EAssign RNextCursor] else [])
          @ [EInit xs (pageValue t) (nextValue t), ENextTick, ERequestAnimationFrame])"

text \<open>The events a run has added to the trace it started with.\<close>

definition added :: "state \<Rightarrow> state \<Rightarrow> event list" where
  "added s s' = drop (length (trace s)) (trace s')"

fun teardownEvent :: "event \<Rightarrow> bool" where
  "teardownEvent ECloseViewer = True"
| "teardownEvent ECancelLoad = True"
| "teardownEvent EDestroy = True"
| "teardownEvent x = False"

fun tabLoadingEvent :: "event \<Rightarrow> bool" where
  "tabLoadingEvent (ETabDataLoadingChange b) = True"
| "tabLoadingEvent x = False"

fun restoredEvent :: "event \<Rightarrow> bool" where
  "restoredEvent (ESetIsTabRestored b) = True"
| "restoredEvent x = False"

fun timeoutEvent :: "event \<Rightarrow> bool" where
  "timeoutEvent ETimeout50 = True"
| "timeoutEvent x = False"

text \<open>
  The order in which the restore callback prefers the collaborator's optional methods:
  \<^verbatim>\<open>restore\<close>, else \<^verbatim>\<open>add\<close>, else \<^verbatim>\<open>insert\<close>; with the event the call leaves.
\<close>

definition delegate ::
  "masonry option \<Rightarrow>
     ((item \<Rightarrow> int \<Rightarrow> item list \<Rightarrow> item list) \<times> (item \<Rightarrow> int \<Rightarrow> event)) option" where
  "delegate mo =
     (case mo of
        None \<Rightarrow> None
      | Some m \<Rightarrow>
          (case restore_fn m of
             Some f \<Rightarrow> Some (f, EMasonryRestore)
           | None \<Rightarrow>
               (case add_fn m of
                  Some f \<Rightarrow> Some (f, EMasonryAdd)
                | None \<Rightarrow>
                    (case insert_fn m of
                       Some f \<Rightarrow> Some (f, EMasonryInsert)
                     | None \<Rightarrow> None))))"

definition refreshable :: "masonry option \<Rightarrow> bool" where
  "refreshable mo = (case mo of None \<Rightarrow> False | Some m \<Rightarrow> has_refreshLayout m)"

text \<open>The predicate handed to the callback when the tab \<open>active\<close> is the active one.\<close>

definition isTabActiveFor :: "int \<Rightarrow> int \<Rightarrow> bool" where
  "isTabActiveFor active n = (n = active)"

text \<open>
  The item id a tile stands for: its \<^verbatim>\<open>data-item-id\<close> when that is a number, else the
  first item whose source matches the image of the tile.
\<close>

definition resolveTile :: "dom_target \<Rightarrow> item list \<Rightarrow> int option" where
  "resolveTile tg xs =
     (case tg of
        NoTarget \<Rightarrow> None
      | OutsideTile \<Rightarrow> None
      | Tile attr img \<Rightarrow>
          (case attr of
             AttrNum n \<Rightarrow> Some n
           | AttrNaN \<Rightarrow> None
           | AttrMissing \<Rightarrow>
               (case img of
                  None \<Rightarrow> None
                | Some src \<Rightarrow> map_option item_id (find (srcMatches src) xs))))"

text \<open>
  The three gestures as the listeners receive them: a left click is a \<^verbatim>\<open>click\<close> with
  button 0, a right click a \<^verbatim>\<open>contextmenu\<close> with button 2, a middle click a
  \<^verbatim>\<open>mousedown\<close> with button 1.
\<close>

definition gesture :: "mouse_event \<Rightarrow> reaction option" where
  "gesture e =
     (if ev_type e = Click \<and> button e = 0 then Some Like
      else if ev_type e = ContextMenu \<and> button e = 2 then Some Dislike
      else if ev_type e = MouseDown \<and> button e = 1 then Some Love
      else None)"

text \<open>A step that has only added events, none of them the opening of the overlay.\<close>

definition quiet :: "state \<Rightarrow> state \<Rightarrow> bool" where
  "quiet s s' = (\<exists>evs. trace s' = trace s @ evs \<and> EOpenFromClick \<notin> set evs)"

section \<open>Sample data\<close>

text \<open>
  The tab of the cursor test (\<^verbatim>\<open>{page: "cursor-x", next: "cursor-y"}\<close> with file ids), the
  refs as the component creates them (lines 38-51), and the collaborator as the tests
  mock it: \<^verbatim>\<open>init\<close>, \<^verbatim>\<open>refreshLayout\<close>, \<^verbatim>\<open>cancelLoad\<close> and \<^verbatim>\<open>destroy\<close> only.
\<close>

definition mkItem :: "int \<Rightarrow> item" where
  "mkItem n = \<lparr>item_id = n, item_src = ''test.jpg''\<rparr>"

definition cursorTab :: tab where
  "cursorTab =
     \<lparr>tab_id = 1,
      queryParams = Some \<lparr>service = JStr ''civit-ai-images'', page = JStr ''cursor-x'',
                          next_token = JStr ''cursor-y''\<rparr>,
      fileIds = Some [1, 2], itemsData = Some []\<rparr>"

definition mockMasonry :: masonry where
  "mockMasonry =
     \<lparr>isLoading = False, restore_fn = None, add_fn = None, insert_fn = None,
      has_refreshLayout = True, remove_fn = (\<lambda>it xs. xs)\<rparr>"

definition freshState :: "tab option \<Rightarrow> state" where
  "freshState t =
     \<lparr>tab = t, items = [], masonry = None, fileViewer = True, masonryContainer = True,
      currentPage = JNum 1, nextCursor = JNull, loadAtPage = JNull, isTabRestored = False,
      pendingRestoreNextCursor = JNull, selectedService = JStr [], trace = []\<rparr>"

definition failingEnv :: env where
  "failingEnv =
     \<lparr>loadTabItems = (\<lambda>n. Inl ''Network Error''), has_onTabDataLoadingChange = True,
      has_onLoadingChange = True, masonry_after = (\<lambda>k. None)\<rparr>"

definition loadingEnv :: env where
  "loadingEnv =
     \<lparr>loadTabItems = (\<lambda>n. Inr [mkItem 1, mkItem 2]), has_onTabDataLoadingChange = True,
      has_onLoadingChange = True,
      masonry_after = (\<lambda>k. if k < 3 then None else Some mockMasonry)\<rparr>"

definition noServiceTab :: tab where
  "noServiceTab =
     \<lparr>tab_id = 2,
      queryParams = Some \<lparr>service = JUndefined, page = JNum 1, next_token = JUndefined\<rparr>,
      fileIds = Some [], itemsData = Some []\<rparr>"

definition loadingState :: state where
  "loadingState =
     (freshState (Some cursorTab))\<lparr>masonry := Some (mockMasonry\<lparr>isLoading := True\<rparr>)\<rparr>"

definition neverMountedEnv :: env where
  "neverMountedEnv =
     \<lparr>loadTabItems = (\<lambda>n. Inr [mkItem 1, mkItem 2]), has_onTabDataLoadingChange = True,
      has_onLoadingChange = True, masonry_after = (\<lambda>k. None)\<rparr>"

definition gridState :: state where
  "gridState = (freshState (Some cursorTab))\<lparr>items := [mkItem 1, mkItem 3],
      masonry := Some mockMasonry\<rparr>"

definition sampleCallback :: restore_cb where
  "sampleCallback = \<lparr>cb_item = mkItem 2, cb_index = 5\<rparr>"

definition detachedState :: state where
  "detachedState = (freshState (Some cursorTab))\<lparr>items := [mkItem 1, mkItem 3]\<rparr>"

definition middleCallback :: restore_cb where
  "middleCallback = \<lparr>cb_item = mkItem 2, cb_index = 1\<rparr>"

definition altEvent :: "ev_kind \<Rightarrow> int \<Rightarrow> dom_target \<Rightarrow> mouse_event" where
  "altEvent k b tg = \<lparr>ev_type = k, button = b, altKey = True, target = tg\<rparr>"

section \<open>Lemmas on the phases of initializeTab\<close>

lemma log_fields [simp]:
  "tab (log x s) = tab s" "items (log x s) = items s" "masonry (log x s) = masonry s"
  "fileViewer (log x s) = fileViewer s" "masonryContainer (log x s) = masonryContainer s"
  "currentPage (log x s) = currentPage s" "nextCursor (log x s) = nextCursor s"
  "loadAtPage (log x s) = loadAtPage s" "isTabRestored (log x s) = isTabRestored s"
  "pendingRestoreNextCursor (log x s) = pendingRestoreNextCursor s"
  "selectedService (log x s) = selectedService s"
  "trace (log x s) = trace s @ [x]"
  by (simp_all add: log_def)

lemma waitEvents_Suc: "[ENextTick, ETimeout50] @ waitEvents n = waitEvents (Suc n)"
  by (simp add: waitEvents_def)

lemma waitForMasonry_state:
  "waitForMasonry e r s = (r', s') \<Longrightarrow>
     r \<le> r' \<and> s' = s\<lparr>trace := trace s @ waitEvents (r' - r)\<rparr>"
proof (induction e r s arbitrary: r' s' rule: waitForMasonry.induct)
  case (1 e retries s)
  show ?case
  proof (cases "Option.is_none (masonry_after e retries) \<and> retries < 20")
    case True
    with "1.prems" have step:
      "waitForMasonry e (Suc retries) (log ETimeout50 (log ENextTick s)) = (r', s')"
      by (simp add: waitForMasonry.simps [of e retries])
    from "1.IH" [OF True step] have le: "Suc retries \<le> r'"
      and eq: "s' = (log ETimeout50 (log ENextTick s))
                 \<lparr>trace := trace (log ETimeout50 (log ENextTick s)) @ waitEvents (r' - Suc retries)\<rparr>"
      by simp_all
    from le have "r' - retries = Suc (r' - Suc retries)" by simp
    with eq le show ?thesis
      by (simp add: log_def waitEvents_Suc [symmetric])
  next
    case False
    with "1.prems" show ?thesis
      by (simp add: waitForMasonry.simps [of e retries] waitEvents_def)
  qed
qed

lemma waitForMasonry_le:
  "r \<le> 20 \<Longrightarrow> fst (waitForMasonry e r s) \<le> 20"
proof (induction e r s rule: waitForMasonry.induct)
  case (1 e retries s)
  then show ?case
    by (cases "Option.is_none (masonry_after e retries) \<and> retries < 20")
       (simp_all add: waitForMasonry.simps [of e retries])
qed

lemma waitForMasonry_never:
  "\<forall>k. masonry_after e k = None \<Longrightarrow> r \<le> 20 \<Longrightarrow> fst (waitForMasonry e r s) = 20"
proof (induction e r s rule: waitForMasonry.induct)
  case (1 e retries s)
  show ?case
  proof (cases "retries < 20")
    case True
    with "1.prems" have c: "Option.is_none (masonry_after e retries) \<and> retries < 20"
      by (simp add: Option.is_none_def)
    from "1.IH" [OF c] "1.prems" True
    have "fst (waitForMasonry e (Suc retries) (log ETimeout50 (log ENextTick s))) = 20"
      by simp
    with c show ?thesis by (simp add: waitForMasonry.simps [of e retries])
  next
    case False
    with "1.prems" have "retries = 20" by simp
    then show ?thesis by (simp add: waitForMasonry.simps [of e 20])
  qed
qed

lemma loadItems_eq:
  "loadItems e t s =
     Completed (s\<lparr>tab := map_option (\<lambda>u. u\<lparr>itemsData := Some (loadedItems e t)\<rparr>) (tab s),
                  trace := trace s @ loadEvents e t\<rparr>)"
  by (cases "loadTabItems e (tab_id t)")
     (simp_all add: loadItems_def tryLoad_def set_itemsData_def notifyTabDataLoading_def
        loadedItems_def loadEvents_def log_def)

lemma present_pageValue [simp]: "present (pageValue t)"
  by (simp add: pageValue_def)

lemma awaitMasonry_page:
  "currentPage s = pageValue t \<Longrightarrow> currentPage (awaitMasonry e t s) = pageValue t"
  by (auto simp add: awaitMasonry_def initMasonry_def pageValue_def Let_def
        split: prod.splits option.splits dest!: waitForMasonry_state)

lemma awaitMasonry_next:
  "nextCursor s = nextValue t \<Longrightarrow> nextCursor (awaitMasonry e t s) = nextValue t"
  by (auto simp add: awaitMasonry_def initMasonry_def nextValue_def Let_def
        split: prod.splits option.splits dest!: waitForMasonry_state)

lemma awaitMasonry_frame:
  "loadAtPage (awaitMasonry e t s) = loadAtPage s"
  "tab (awaitMasonry e t s) = tab s"
  by (auto simp add: awaitMasonry_def initMasonry_def Let_def
        split: prod.splits option.splits dest!: waitForMasonry_state)

lemma teardown_trace:
  "trace (destroyMasonry (closeFileViewer s)) = trace s @ teardownEvents s"
  by (simp add: destroyMasonry_def closeFileViewer_def teardownEvents_def split: option.splits)

lemma teardown_frame:
  "tab (destroyMasonry (closeFileViewer s)) = tab s"
  by (simp add: destroyMasonry_def closeFileViewer_def split: option.splits)

lemma initMasonry_trace:
  "trace (initMasonry t mo s) = trace s @ initEvents t mo (currentItemsData s)"
  by (simp add: initMasonry_def initEvents_def pageValue_def nextValue_def Let_def
        currentItemsData_def split: option.splits)

lemma awaitMasonry_trace:
  "\<exists>r\<le>20. trace (awaitMasonry e t s) =
      trace s @ ENextTick #
        (if hasItemsData s
         then waitEvents r @ initEvents t (masonry_after e r) (currentItemsData s) else [])"
proof (cases "hasItemsData s")
  case False
  then have "trace (awaitMasonry e t s) = trace s @ [ENextTick]"
    by (simp add: awaitMasonry_def hasItemsData_def)
  with False show ?thesis by (intro exI [of _ 0]) simp
next
  case True
  obtain r s2 where w: "waitForMasonry e 0 (log ENextTick s) = (r, s2)"
    by (cases "waitForMasonry e 0 (log ENextTick s)")
  from waitForMasonry_state [OF w]
  have s2: "s2 = (log ENextTick s)\<lparr>trace := trace (log ENextTick s) @ waitEvents r\<rparr>"
    by simp
  from waitForMasonry_le [of 0 e "log ENextTick s"] w have "r \<le> 20" by simp
  moreover from True have "hasItemsData (log ENextTick s)" by (simp add: hasItemsData_def)
  moreover have "currentItemsData s2 = currentItemsData s"
    by (simp add: s2 currentItemsData_def)
  moreover have "trace s2 = trace s @ ENextTick # waitEvents r" by (simp add: s2)
  ultimately show ?thesis using True w
    by (auto simp add: awaitMasonry_def initMasonry_trace)
qed

text \<open>The whole trace of a run on an existing tab.\<close>

lemma initializeTab_trace:
  assumes "tab s = Some t"
  shows "\<exists>s' r. r \<le> 20 \<and> initializeTab e s = Completed s' \<and>
     trace s' = trace s @ teardownEvents s
       @ [ESetIsTabRestored (tabHasRestorableItems t), EAssign RSelectedService,
          EAssign RPendingRestoreNextCursor]
       @ loadEvents e t
       @ [EAssign RCurrentPage, EAssign RNextCursor, EAssign RLoadAtPage, EAssign RItems,
          ENextTick]
       @ (if loadedItems e t \<noteq> []
          then waitEvents r @ initEvents t (masonry_after e r) (loadedItems e t) else [])
       @ [ESetIsTabRestored False]"
proof -
  define s1 where "s1 = restoreFlags t (destroyMasonry (closeFileViewer s))"
  define s2 where
    "s2 = s1\<lparr>tab := map_option (\<lambda>u. u\<lparr>itemsData := Some (loadedItems e t)\<rparr>) (tab s1),
            trace := trace s1 @ loadEvents e t\<rparr>"
  define s3 where "s3 = setLoadAtPage t (restorePagination t s2)"
  have t1: "trace s1 = trace s @ teardownEvents s
       @ [ESetIsTabRestored (tabHasRestorableItems t), EAssign RSelectedService,
          EAssign RPendingRestoreNextCursor]"
    by (simp add: s1_def restoreFlags_def Let_def teardown_trace)
  have tab1: "tab s1 = Some t"
    by (simp add: s1_def restoreFlags_def Let_def teardown_frame assms)
  have tab3: "tab s3 = Some (t\<lparr>itemsData := Some (loadedItems e t)\<rparr>)"
    by (simp add: s3_def s2_def tab1 setLoadAtPage_def restorePagination_def Let_def)
  have t3: "trace s3 = trace s1 @ loadEvents e t
       @ [EAssign RCurrentPage, EAssign RNextCursor, EAssign RLoadAtPage, EAssign RItems]"
    by (simp add: s3_def s2_def setLoadAtPage_def restorePagination_def Let_def)
  have h3: "hasItemsData s3 = (loadedItems e t \<noteq> [])"
    by (simp add: hasItemsData_def tab3 opt_length_def)
  have c3: "currentItemsData s3 = loadedItems e t"
    by (simp add: currentItemsData_def tab3)
  obtain r where r: "r \<le> 20" and tr: "trace (awaitMasonry e t s3) =
      trace s3 @ ENextTick #
        (if hasItemsData s3
         then waitEvents r @ initEvents t (masonry_after e r) (currentItemsData s3) else [])"
    using awaitMasonry_trace [of e t s3] by blast
  have "initializeTab e s = Completed (finishInit (awaitMasonry e t s3))"
    by (simp add: initializeTab_def assms loadItems_eq s3_def s2_def s1_def)
  moreover have "trace (finishInit (awaitMasonry e t s3)) = trace s @ teardownEvents s
       @ [ESetIsTabRestored (tabHasRestorableItems t), EAssign RSelectedService,
          EAssign RPendingRestoreNextCursor]
       @ loadEvents e t
       @ [EAssign RCurrentPage, EAssign RNextCursor, EAssign RLoadAtPage, EAssign RItems,
          ENextTick]
       @ (if loadedItems e t \<noteq> []
          then waitEvents r @ initEvents t (masonry_after e r) (loadedItems e t) else [])
       @ [ESetIsTabRestored False]"
    by (simp add: finishInit_def tr t3 t1 h3 c3)
  ultimately show ?thesis using r by blast
qed

lemma waitEvents_quiet:
  "x \<in> set (waitEvents n) \<Longrightarrow> x = ENextTick \<or> x = ETimeout50"
  by (induction n) (auto simp add: waitEvents_def)

lemma waitEvents_timeouts: "length (filter timeoutEvent (waitEvents n)) = n"
  by (induction n) (simp_all add: waitEvents_def)

lemma waitEvents_filters [simp]:
  "filter tabLoadingEvent (waitEvents n) = []"
  "filter restoredEvent (waitEvents n) = []"
  by (induction n) (simp_all add: waitEvents_def)

lemma initEvents_filters [simp]:
  "filter tabLoadingEvent (initEvents t mo xs) = []"
  "filter restoredEvent (initEvents t mo xs) = []"
  "filter timeoutEvent (initEvents t mo xs) = []"
  by (simp_all add: initEvents_def split: option.splits)

lemma initEvents_quiet: "x \<in> set (initEvents t mo xs) \<Longrightarrow> \<not> teardownEvent x"
  by (auto simp add: initEvents_def split: option.splits if_splits)

lemma loadEvents_filters [simp]:
  "filter restoredEvent (loadEvents e t) = []"
  "filter timeoutEvent (loadEvents e t) = []"
  by (simp_all add: loadEvents_def split: sum.splits)

lemma loadEvents_quiet: "x \<in> set (loadEvents e t) \<Longrightarrow> \<not> teardownEvent x"
  by (auto simp add: loadEvents_def split: sum.splits if_splits)

lemma loadEvents_notifications:
  "filter tabLoadingEvent (loadEvents e t) =
     (if opt_length (fileIds t) > 0 \<and> has_onTabDataLoadingChange e
      then [ETabDataLoadingChange True, ETabDataLoadingChange False] else [])"
  by (simp add: loadEvents_def split: sum.splits)

lemma teardownEvents_filters [simp]:
  "filter tabLoadingEvent (teardownEvents s) = []"
  "filter restoredEvent (teardownEvents s) = []"
  "filter timeoutEvent (teardownEvents s) = []"
  by (simp_all add: teardownEvents_def split: option.splits)

lemma added_append [simp]: "trace s' = trace s @ evs \<Longrightarrow> added s s' = evs"
  by (simp add: added_def)

lemma initializeTab_final:
  assumes "tab s = Some t"
  shows "\<exists>s'. initializeTab e s = Completed s'
     \<and> tab s' = Some (t\<lparr>itemsData := Some (loadedItems e t)\<rparr>)
     \<and> loadAtPage s' =
         (if loadedItems e t \<noteq> [] then JNull
          else if nonempty_string (qp service t) then pageValue t else JNull)
     \<and> \<not> isTabRestored s'"
proof -
  have tab1: "tab (restoreFlags t (destroyMasonry (closeFileViewer s))) = Some t"
    by (simp add: restoreFlags_def Let_def teardown_frame assms)
  show ?thesis
    by (simp add: initializeTab_def assms loadItems_eq finishInit_def awaitMasonry_frame
          setLoadAtPage_def restorePagination_def Let_def tab1 hasItemsData_def opt_length_def
          pageValue_def)
qed

section \<open>Restoring the page token\<close>

text \<open>
  C1. A tab whose persisted \<^verbatim>\<open>queryParams.page\<close> is present, a page number or a cursor
  string alike, has after \<^verbatim>\<open>initializeTab\<close> that very token as \<^verbatim>\<open>currentPage\<close>, and 1
  when it is absent; \<^verbatim>\<open>nextCursor\<close> is the persisted \<^verbatim>\<open>queryParams.next\<close> when present and
  null otherwise. The run completes on every tab.
\<close>

theorem initializeTab_restores_page:
  "tab s = Some t \<Longrightarrow>
   \<exists>s'. initializeTab e s = Completed s'
       \<and> currentPage s' = (if present (qp page t) then qp page t else JNum 1)
       \<and> nextCursor s' = (if present (qp next_token t) then qp next_token t else JNull)"
  by (simp add: initializeTab_def loadItems_eq finishInit_def awaitMasonry_page awaitMasonry_next
      pageValue_def nextValue_def setLoadAtPage_def restorePagination_def Let_def)

theorem initializeTab_restores_page_witness:
  "\<exists>s'. initializeTab loadingEnv (freshState (Some cursorTab)) = Completed s'
       \<and> currentPage s' = JStr ''cursor-x'' \<and> nextCursor s' = JStr ''cursor-y''"
  using initializeTab_restores_page [of "freshState (Some cursorTab)" cursorTab loadingEnv]
  by (simp add: freshState_def cursorTab_def qp_def)

section \<open>Tearing down before installing\<close>

text \<open>
  When a tab is initialised while a masonry instance exists, \<^verbatim>\<open>cancelLoad\<close> is called
  exactly when the instance reports \<^verbatim>\<open>isLoading\<close>, \<^verbatim>\<open>destroy\<close> is called in any case, and
  both, with the closing of the file viewer before them, come before the first assignment
  of the new tab's state; nothing is torn down after it.
\<close>

lemma initializeTab_teardown_first:
  "masonry s = Some m \<Longrightarrow>
     (\<forall>t. tab s = Some t \<longrightarrow>
        (\<exists>s' rest. initializeTab e s = Completed s'
           \<and> added s s' =
               (if fileViewer s then [ECloseViewer] else [])
               @ (if isLoading m then [ECancelLoad] else [])
               @ [EDestroy]
               @ ESetIsTabRestored (tabHasRestorableItems t) # rest
           \<and> (\<forall>x\<in>set rest. \<not> teardownEvent x)))"
proof (intro conjI allI impI)
  fix t assume m: "masonry s = Some m" and t: "tab s = Some t"
  from initializeTab_trace [OF t, of e] obtain s' r where
    c: "initializeTab e s = Completed s'" and
    tr: "trace s' = trace s @ teardownEvents s
       @ [ESetIsTabRestored (tabHasRestorableItems t), EAssign RSelectedService,
          EAssign RPendingRestoreNextCursor]
       @ loadEvents e t
       @ [EAssign RCurrentPage, EAssign RNextCursor, EAssign RLoadAtPage, EAssign RItems,
          ENextTick]
       @ (if loadedItems e t \<noteq> []
          then waitEvents r @ initEvents t (masonry_after e r) (loadedItems e t) else [])
       @ [ESetIsTabRestored False]"
    by blast
  define rest where "rest = [EAssign RSelectedService, EAssign RPendingRestoreNextCursor]
       @ loadEvents e t
       @ [EAssign RCurrentPage, EAssign RNextCursor, EAssign RLoadAtPage, EAssign RItems,
          ENextTick]
       @ (if loadedItems e t \<noteq> []
          then waitEvents r @ initEvents t (masonry_after e r) (loadedItems e t) else [])
       @ [ESetIsTabRestored False]"
  have q: "\<forall>x\<in>set rest. \<not> teardownEvent x"
    by (auto simp add: rest_def dest: loadEvents_quiet initEvents_quiet waitEvents_quiet)
  have "added s s' = (if fileViewer s then [ECloseViewer] else [])
               @ (if isLoading m then [ECancelLoad] else [])
               @ [EDestroy]
               @ ESetIsTabRestored (tabHasRestorableItems t) # rest"
    by (rule added_append) (simp add: tr rest_def teardownEvents_def m)
  with c q show "\<exists>s' rest. initializeTab e s = Completed s'
           \<and> added s s' =
               (if fileViewer s then [ECloseViewer] else [])
               @ (if isLoading m then [ECancelLoad] else [])
               @ [EDestroy]
               @ ESetIsTabRestored (tabHasRestorableItems t) # rest
           \<and> (\<forall>x\<in>set rest. \<not> teardownEvent x)" by blast
qed

lemma initializeTab_teardown_first_sample:
  "\<exists>s' rest. initializeTab loadingEnv loadingState = Completed s'
      \<and> added loadingState s' = [ECloseViewer, ECancelLoad, EDestroy, ESetIsTabRestored True] @ rest
      \<and> (\<forall>x\<in>set rest. \<not> teardownEvent x)"
  using initializeTab_teardown_first [of loadingState "mockMasonry\<lparr>isLoading := True\<rparr>" loadingEnv]
  by (simp add: loadingState_def freshState_def cursorTab_def loadingEnv_def mockMasonry_def
        tabHasRestorableItems_def opt_length_def)

text \<open>
  The hook body of lines 465-479 would cancel and destroy in the same way, were the ref
  still set when it runs; at an unmount it never is.
\<close>

lemma onUnmounted_with_instance:
  "masonry s = Some m \<Longrightarrow>
     added s (onUnmounted e s) =
       EEmitLoading False # (if has_onLoadingChange e then [EOnLoadingChange False] else [])
       @ (if isLoading m then [ECancelLoad] else []) @ [EDestroy]"
  by (rule added_append) (simp add: onUnmounted_def destroyMasonry_def Let_def)

lemma unmountComponent_events:
  "trace (unmountComponent e s) =
     trace s @ EEmitLoading False # (if has_onLoadingChange e then [EOnLoadingChange False] else [])"
  by (simp add: unmountComponent_def onUnmounted_def destroyMasonry_def Let_def log_def)

text \<open>
  C3. Initialising a tab cancels a running load, destroys the instance and closes the
  viewer before the new state is installed, as the lemma above shows. Unmounting does
  not: the component is unmounted while its masonry instance is loading, and the run of
  the hook adds the two loading notifications only, neither \<^verbatim>\<open>cancelLoad\<close> nor
  \<^verbatim>\<open>destroy\<close>, whereas initialising the same state calls both.
\<close>

theorem unmount_skips_destroy:
  "map_option isLoading (masonry loadingState) = Some True
   \<and> added loadingState (unmountComponent loadingEnv loadingState) =
       [EEmitLoading False, EOnLoadingChange False]
   \<and> ECancelLoad \<notin> set (added loadingState (unmountComponent loadingEnv loadingState))
   \<and> EDestroy \<notin> set (added loadingState (unmountComponent loadingEnv loadingState))"
proof -
  have "added loadingState (unmountComponent loadingEnv loadingState) =
       [EEmitLoading False, EOnLoadingChange False]"
    by (rule added_append) (simp add: unmountComponent_events loadingEnv_def)
  then show ?thesis
    by (simp add: loadingState_def mockMasonry_def)
qed

section \<open>The initial load trigger\<close>

text \<open>
  C4. After \<^verbatim>\<open>initializeTab\<close>, \<^verbatim>\<open>loadAtPage\<close> is null when the tab ended up with item
  snapshots or when no service is selected; otherwise it is the persisted page token, or
  1 when there is none. The snapshots the tab ends up with are those \<^verbatim>\<open>loadTabItems\<close>
  resolved to, and none when it rejected or when the tab has no file ids.
\<close>

theorem initializeTab_loadAtPage:
  "tab s = Some t \<Longrightarrow>
   \<exists>s'. initializeTab e s = Completed s'
       \<and> loadAtPage s' =
           (if hasItemsData s' \<or> \<not> nonempty_string (qp service t) then JNull
            else if present (qp page t) then qp page t else JNum 1)
       \<and> currentItemsData s' = loadedItems e t"
proof -
  assume t: "tab s = Some t"
  from initializeTab_final [OF t, of e] obtain s' where
    "initializeTab e s = Completed s'"
    "tab s' = Some (t\<lparr>itemsData := Some (loadedItems e t)\<rparr>)"
    "loadAtPage s' =
         (if loadedItems e t \<noteq> [] then JNull
          else if nonempty_string (qp service t) then pageValue t else JNull)"
    by blast
  then show ?thesis
    by (simp add: hasItemsData_def currentItemsData_def opt_length_def pageValue_def)
qed

theorem initializeTab_loadAtPage_witness:
  "\<exists>s'. initializeTab loadingEnv (freshState (Some noServiceTab)) = Completed s'
       \<and> loadAtPage s' = JNull \<and> currentItemsData s' = []"
  using initializeTab_loadAtPage [of "freshState (Some noServiceTab)" noServiceTab loadingEnv]
  by (simp add: freshState_def noServiceTab_def qp_def loadedItems_def opt_length_def)

section \<open>Recovery from a failed item load\<close>

text \<open>
  C5. For a tab with file ids, \<^verbatim>\<open>initializeTab\<close> completes whether \<^verbatim>\<open>loadTabItems\<close>
  resolves or rejects. When it rejects, the error is logged, not rethrown, and
  \<^verbatim>\<open>tab.itemsData\<close> becomes the empty list. On both paths the parent is told
  \<^verbatim>\<open>onTabDataLoadingChange(true)\<close> and then \<^verbatim>\<open>onTabDataLoadingChange(false)\<close>; when the
  optional prop is not given there is no notification at all, so no flag is left set.
\<close>

theorem initializeTab_recovers_load_failure:
  "tab s = Some t \<Longrightarrow> opt_length (fileIds t) > 0 \<Longrightarrow>
   \<exists>s'. initializeTab e s = Completed s'
       \<and> (\<forall>err. loadTabItems e (tab_id t) = Inl err \<longrightarrow>
             tab s' = Some (t\<lparr>itemsData := Some []\<rparr>) \<and> EConsoleError err \<in> set (added s s'))
       \<and> filter tabLoadingEvent (added s s') =
           (if has_onTabDataLoadingChange e
            then [ETabDataLoadingChange True, ETabDataLoadingChange False] else [])"
proof -
  assume t: "tab s = Some t" and f: "opt_length (fileIds t) > 0"
  from initializeTab_trace [OF t, of e] obtain s' r where
    c: "initializeTab e s = Completed s'" and
    tr: "trace s' = trace s @ (teardownEvents s
       @ [ESetIsTabRestored (tabHasRestorableItems t), EAssign RSelectedService,
          EAssign RPendingRestoreNextCursor]
       @ loadEvents e t
       @ [EAssign RCurrentPage, EAssign RNextCursor, EAssign RLoadAtPage, EAssign RItems,
          ENextTick]
       @ (if loadedItems e t \<noteq> []
          then waitEvents r @ initEvents t (masonry_after e r) (loadedItems e t) else [])
       @ [ESetIsTabRestored False])"
    by auto
  from initializeTab_final [OF t, of e] c
  have tab': "tab s' = Some (t\<lparr>itemsData := Some (loadedItems e t)\<rparr>)" by auto
  have n: "filter tabLoadingEvent (added s s') =
           (if has_onTabDataLoadingChange e
            then [ETabDataLoadingChange True, ETabDataLoadingChange False] else [])"
    by (simp add: added_append [OF tr] loadEvents_notifications f)
  have "\<forall>err. loadTabItems e (tab_id t) = Inl err \<longrightarrow>
             tab s' = Some (t\<lparr>itemsData := Some []\<rparr>) \<and> EConsoleError err \<in> set (added s s')"
    by (simp add: added_append [OF tr] tab' loadedItems_def loadEvents_def f)
  with c n show ?thesis by blast
qed

theorem initializeTab_recovers_load_failure_witness:
  "\<exists>s'. initializeTab failingEnv (freshState (Some cursorTab)) = Completed s'
       \<and> tab s' = Some (cursorTab\<lparr>itemsData := Some []\<rparr>)
       \<and> EConsoleError ''Network Error'' \<in> set (added (freshState (Some cursorTab)) s')
       \<and> filter tabLoadingEvent (added (freshState (Some cursorTab)) s') =
           [ETabDataLoadingChange True, ETabDataLoadingChange False]"
  using initializeTab_recovers_load_failure [of "freshState (Some cursorTab)" cursorTab failingEnv]
  by (simp add: freshState_def cursorTab_def failingEnv_def opt_length_def)

section \<open>The bounded wait for the collaborator\<close>

text \<open>
  C7. The polling loop of \<^verbatim>\<open>initializeTab\<close> ends after at most 20 rounds, each of one
  tick and one timeout; when the collaborator never becomes available it ends after
  exactly 20. \<^verbatim>\<open>initializeTab\<close> completes in every surrounding, with at most 20
  timeouts.
\<close>

theorem waitForMasonry_bounded:
  "fst (waitForMasonry e 0 s) \<le> 20
   \<and> trace (snd (waitForMasonry e 0 s)) = trace s @ waitEvents (fst (waitForMasonry e 0 s))
   \<and> ((\<forall>k. masonry_after e k = None) \<longrightarrow> fst (waitForMasonry e 0 s) = 20)
   \<and> (\<exists>s'. initializeTab e s = Completed s' \<and> length (filter timeoutEvent (added s s')) \<le> 20)"
proof (intro conjI impI)
  show "fst (waitForMasonry e 0 s) \<le> 20" by (simp add: waitForMasonry_le)
  show "trace (snd (waitForMasonry e 0 s)) = trace s @ waitEvents (fst (waitForMasonry e 0 s))"
    using waitForMasonry_state [of e 0 s "fst (waitForMasonry e 0 s)" "snd (waitForMasonry e 0 s)"]
    by simp
  show "fst (waitForMasonry e 0 s) = 20" if "\<forall>k. masonry_after e k = None"
    using that by (simp add: waitForMasonry_never)
  show "\<exists>s'. initializeTab e s = Completed s' \<and> length (filter timeoutEvent (added s s')) \<le> 20"
  proof (cases "tab s")
    case None
    then show ?thesis by (simp add: initializeTab_def added_def)
  next
    case (Some t)
    from initializeTab_trace [OF Some, of e] obtain s' r where
      r: "r \<le> 20" and c: "initializeTab e s = Completed s'" and
      tr: "trace s' = trace s @ (teardownEvents s
       @ [ESetIsTabRestored (tabHasRestorableItems t), EAssign RSelectedService,
          EAssign RPendingRestoreNextCursor]
       @ loadEvents e t
       @ [EAssign RCurrentPage, EAssign RNextCursor, EAssign RLoadAtPage, EAssign RItems,
          ENextTick]
       @ (if loadedItems e t \<noteq> []
          then waitEvents r @ initEvents t (masonry_after e r) (loadedItems e t) else [])
       @ [ESetIsTabRestored False])"
      by auto
    have "length (filter timeoutEvent (added s s')) \<le> r"
      by (simp add: added_append [OF tr] waitEvents_timeouts)
    with r c show ?thesis by auto
  qed
qed

theorem waitForMasonry_bounded_witness:
  "fst (waitForMasonry neverMountedEnv 0 (freshState (Some cursorTab))) = 20
   \<and> (\<exists>s'. initializeTab neverMountedEnv (freshState (Some cursorTab)) = Completed s'
          \<and> length (filter timeoutEvent (added (freshState (Some cursorTab)) s')) \<le> 20)"
  using waitForMasonry_bounded [of neverMountedEnv "freshState (Some cursorTab)"]
  by (simp add: neverMountedEnv_def)

section \<open>The restoration flag\<close>

text \<open>
  C8. A run of \<^verbatim>\<open>initializeTab\<close> on a tab, the item load failing or not, returns with
  \<^verbatim>\<open>isTabRestored\<close> false; during the run the flag is assigned twice, first whether
  the tab has restorable items and last false. Without a tab the function returns at
  once and the flag stays as it was, false when it was false.
\<close>

theorem isTabRestored_cleared:
  "tab s \<noteq> None \<or> \<not> isTabRestored s \<Longrightarrow>
   \<exists>s'. initializeTab e s = Completed s' \<and> \<not> isTabRestored s'
       \<and> (\<forall>t. tab s = Some t \<longrightarrow>
             filter restoredEvent (added s s') =
               [ESetIsTabRestored (tabHasRestorableItems t), ESetIsTabRestored False])"
proof (cases "tab s")
  case None
  assume "tab s \<noteq> None \<or> \<not> isTabRestored s"
  with None show ?thesis by (simp add: initializeTab_def)
next
  case (Some t)
  from initializeTab_trace [OF Some, of e] obtain s' r where
    c: "initializeTab e s = Completed s'" and
    tr: "trace s' = trace s @ (teardownEvents s
       @ [ESetIsTabRestored (tabHasRestorableItems t), EAssign RSelectedService,
          EAssign RPendingRestoreNextCursor]
       @ loadEvents e t
       @ [EAssign RCurrentPage, EAssign RNextCursor, EAssign RLoadAtPage, EAssign RItems,
          ENextTick]
       @ (if loadedItems e t \<noteq> []
          then waitEvents r @ initEvents t (masonry_after e r) (loadedItems e t) else [])
       @ [ESetIsTabRestored False])"
    by auto
  from initializeTab_final [OF Some, of e] c have "\<not> isTabRestored s'" by auto
  moreover have "filter restoredEvent (added s s') =
      [ESetIsTabRestored (tabHasRestorableItems t), ESetIsTabRestored False]"
    by (simp add: added_append [OF tr])
  ultimately show ?thesis using c Some by auto
qed

theorem isTabRestored_cleared_witness:
  "\<exists>s'. initializeTab failingEnv (freshState (Some cursorTab)) = Completed s'
       \<and> \<not> isTabRestored s'
       \<and> filter restoredEvent (added (freshState (Some cursorTab)) s') =
           [ESetIsTabRestored True, ESetIsTabRestored False]"
  using isTabRestored_cleared [of "freshState (Some cursorTab)" failingEnv]
  by (simp add: freshState_def cursorTab_def tabHasRestorableItems_def opt_length_def)



section \<open>Lemmas on the array operations and the handlers\<close>

lemma find_hasId_None: "(find (hasId n) xs = None) = (n \<notin> item_id ` set xs)"
  by (induction xs) (auto simp add: hasId_def)

lemma findIndexFrom_None: "find P xs = None \<Longrightarrow> findIndexFrom P k xs = - 1"
  by (induction xs arbitrary: k) (auto split: if_splits)

lemma findIndexFrom_Some:
  "find P xs = Some x \<Longrightarrow>
     \<exists>n<length xs. findIndexFrom P k xs = k + int n \<and> xs ! n = x \<and> P x
        \<and> (\<forall>j<n. \<not> P (xs ! j))"
proof (induction xs arbitrary: k)
  case Nil
  then show ?case by simp
next
  case (Cons y ys)
  show ?case
  proof (cases "P y")
    case True
    with Cons.prems show ?thesis by (intro exI [of _ 0]) simp
  next
    case False
    with Cons.prems have f: "find P ys = Some x" by simp
    from Cons.IH [OF f, of "k + 1"] obtain n where
      n: "n < length ys" "findIndexFrom P (k + 1) ys = k + 1 + int n" "ys ! n = x" "P x"
         "\<forall>j<n. \<not> P (ys ! j)"
      by blast
    have "\<forall>j<Suc n. \<not> P ((y # ys) ! j)"
      using n(5) False by (auto simp add: less_Suc_eq_0_disj)
    with n False show ?thesis by (intro exI [of _ "Suc n"]) simp
  qed
qed

lemma findIndex_None: "find P xs = None \<Longrightarrow> findIndex P xs = - 1"
  by (simp add: findIndex_def findIndexFrom_None)

lemma findIndex_Some:
  "find P xs = Some x \<Longrightarrow>
     \<exists>n<length xs. findIndex P xs = int n \<and> xs ! n = x \<and> P x \<and> (\<forall>j<n. \<not> P (xs ! j))"
  using findIndexFrom_Some [of P xs x 0] by (simp add: findIndex_def)

lemma findIndex_absent: "(findIndex P xs = - 1) = (find P xs = None)"
proof (cases "find P xs")
  case None
  then show ?thesis by (simp add: findIndex_None)
next
  case (Some x)
  from findIndex_Some [OF Some] show ?thesis using Some by auto
qed

lemma spliceInsert_nonneg:
  "0 \<le> i \<Longrightarrow>
     spliceInsert (min i (int (length xs))) x xs =
       take (min (nat i) (length xs)) xs @ x # drop (min (nat i) (length xs)) xs"
proof -
  assume "0 \<le> i"
  then have "spliceStart (min i (int (length xs))) (length xs) = min (nat i) (length xs)"
    by (simp add: spliceStart_def) linarith
  then show ?thesis by (simp add: spliceInsert_def)
qed

lemma remove1_first:
  "n < length xs \<Longrightarrow> \<forall>j<n. xs ! j \<noteq> xs ! n \<Longrightarrow>
     take n xs @ drop (Suc n) xs = remove1 (xs ! n) xs"
proof (induction xs arbitrary: n)
  case Nil
  then show ?case by simp
next
  case (Cons y ys)
  show ?case
  proof (cases n)
    case 0
    then show ?thesis by simp
  next
    case (Suc k)
    with Cons.prems have "k < length ys" by simp
    moreover from Cons.prems Suc have "\<forall>j<k. ys ! j \<noteq> ys ! k" by auto
    moreover from Cons.prems Suc have "y \<noteq> ys ! k" by auto
    ultimately show ?thesis using Cons.IH [of k] Suc by simp
  qed
qed

lemma spliceDelete1_first:
  assumes "find P xs = Some x"
  shows "spliceDelete1 (findIndex P xs) xs = remove1 x xs"
proof -
  from findIndex_Some [OF assms] obtain n where
    n: "n < length xs" "findIndex P xs = int n" "xs ! n = x" "P x" "\<forall>j<n. \<not> P (xs ! j)"
    by blast
  then have "\<forall>j<n. xs ! j \<noteq> xs ! n" by metis
  from remove1_first [OF n(1) this] n show ?thesis
    by (simp add: spliceDelete1_def spliceStart_def)
qed

lemma remove1_by_id:
  "distinct (map item_id xs) \<Longrightarrow> x \<in> set xs \<Longrightarrow>
     remove1 x xs = filter (\<lambda>i. item_id i \<noteq> item_id x) xs"
proof (induction xs)
  case Nil
  then show ?case by simp
next
  case (Cons y ys)
  show ?case
  proof (cases "x = y")
    case True
    from Cons.prems have "item_id y \<notin> item_id ` set ys" by simp
    then have "\<forall>i\<in>set ys. item_id i \<noteq> item_id y" by (metis imageI)
    then have "filter (\<lambda>i. item_id i \<noteq> item_id y) ys = ys" by (simp add: filter_id_conv)
    with True show ?thesis by simp
  next
    case False
    with Cons.prems have "x \<in> set ys" by simp
    with Cons.prems have "item_id y \<noteq> item_id x" by auto
    with Cons False \<open>x \<in> set ys\<close> show ?thesis by simp
  qed
qed

lemma find_Some_mem: "find P xs = Some x \<Longrightarrow> x \<in> set xs \<and> P x"
  by (induction xs) (auto split: if_splits)

lemma remove1_drops_id:
  assumes "distinct (map item_id xs)" and "find (hasId n) xs = Some mi"
  shows "n \<notin> item_id ` set (remove1 mi xs)"
proof -
  from find_Some_mem [OF assms(2)] have mi: "mi \<in> set xs" "item_id mi = n"
    by (simp_all add: hasId_def)
  from remove1_by_id [OF assms(1) mi(1)] mi(2)
  have "remove1 mi xs = filter (\<lambda>i. item_id i \<noteq> n) xs" by simp
  then show ?thesis by auto
qed

lemma removeFromMasonry_found:
  "masonry s = Some m \<Longrightarrow> find (hasId (item_id it)) (items s) = Some mi \<Longrightarrow>
     removeFromMasonry it s = Completed (s\<lparr>items := remove1 mi (items s)\<rparr>)"
  by (simp add: removeFromMasonry_def findIndex_absent spliceDelete1_first)

lemma removeFromMasonry_absent:
  "item_id it \<notin> item_id ` set (items s) \<Longrightarrow>
     stateOf (removeFromMasonry it s) = s"
  by (simp add: removeFromMasonry_def find_hasId_None [symmetric] findIndex_None
        split: option.splits)

lemma restoreFallback_eq:
  "0 \<le> cb_index cb \<Longrightarrow>
     restoreFallback cb s =
       (let k = min (nat (cb_index cb)) (length (items s));
            ys = take k (items s) @ cb_item cb # drop k (items s)
        in s\<lparr>items := ys,
             trace := trace s @ (if refreshable (masonry s) then [ENextTick, ERefreshLayout ys] else [])\<rparr>)"
  by (simp add: restoreFallback_def Let_def spliceInsert_nonneg refreshable_def log_def
        split: option.splits)

lemma quiet_refl: "quiet s s"
  by (simp add: quiet_def)

lemma quiet_trans: "quiet s s' \<Longrightarrow> quiet s' s'' \<Longrightarrow> quiet s s''"
  by (auto simp add: quiet_def)

lemma quiet_log: "x \<noteq> EOpenFromClick \<Longrightarrow> quiet s (log x s)"
  by (simp add: quiet_def)

lemma quiet_added: "quiet s s' \<Longrightarrow> EOpenFromClick \<notin> set (added s s')"
  by (auto simp add: quiet_def added_def)

lemma removeFn_quiet: "quiet s (removeFn it s)"
  by (simp add: removeFn_def masonryRemove_def quiet_def split: option.splits)

lemma handleMasonryReaction_quiet: "quiet s (handleMasonryReaction fid ty (Some removeFn) s)"
proof -
  have "quiet s (case find (hasId fid) (items s) of None \<Rightarrow> s | Some it \<Rightarrow> removeFn it s)"
    by (simp add: quiet_refl removeFn_quiet split: option.splits)
  then show ?thesis
    by (auto simp add: handleMasonryReaction_def Let_def quiet_def split: option.splits)
qed

lemma handleAltClickReaction_quiet: "quiet s (handleAltClickReaction e fid s)"
proof -
  have a: "quiet s (log EStopPropagation (log EPreventDefault s))"
    by (simp add: quiet_def)
  show ?thesis
    using a quiet_trans [OF a handleMasonryReaction_quiet]
    by (simp add: handleAltClickReaction_def Let_def split: option.splits)
qed

lemma handleAltClickOnMasonry_quiet: "quiet s (handleAltClickOnMasonry e s)"
  by (simp add: handleAltClickOnMasonry_def quiet_refl handleAltClickReaction_quiet
        split: dom_target.splits id_attr.splits option.splits)

lemma dispatchMouse_quiet: "altKey e \<Longrightarrow> quiet s (dispatchMouse e s)"
proof (cases "ev_type e")
  case Click
  assume "altKey e"
  with Click show ?thesis
    by (simp add: dispatchMouse_def onMasonryClick_def handleAltClickOnMasonry_quiet)
next
  case ContextMenu
  assume "altKey e"
  with ContextMenu quiet_trans [OF quiet_log handleAltClickOnMasonry_quiet, of EPreventDefault s e]
  show ?thesis by (simp add: dispatchMouse_def onMasonryClick_def)
next
  case MouseDown
  then show ?thesis
    by (simp add: dispatchMouse_def onMasonryMouseDown_def handleAltClickOnMasonry_quiet quiet_refl)
qed

lemma handleAltClickOnMasonry_unresolved:
  "\<not> masonryContainer s \<or> resolveTile (target e) (items s) = None \<Longrightarrow>
     handleAltClickOnMasonry e s = s"
  by (auto simp add: handleAltClickOnMasonry_def resolveTile_def
        split: dom_target.splits id_attr.splits option.splits)

lemma handleAltClickOnMasonry_resolved:
  "masonryContainer s \<Longrightarrow> resolveTile (target e) (items s) = Some fid \<Longrightarrow>
     handleAltClickOnMasonry e s = handleAltClickReaction e fid s"
  by (auto simp add: handleAltClickOnMasonry_def resolveTile_def
        split: dom_target.splits id_attr.splits option.splits)

lemma handleAltClickReaction_trace:
  assumes f: "find (hasId fid) (items s) = Some it" and r: "reactionType e = Some ty"
  shows "\<exists>q. trace (handleAltClickReaction e fid s) =
            trace s @ [EPreventDefault, EStopPropagation]
            @ (case masonry s of None \<Rightarrow> [] | Some m \<Rightarrow> [EMasonryRemove it])
            @ [EQueueReaction q, EOnReaction fid ty]
          \<and> q_fileId q = fid \<and> q_type q = ty \<and> q_item q = Some it"
proof -
  from find_Some_mem [OF f] have "item_id it = fid" by (simp add: hasId_def)
  with f r show ?thesis
    by (simp add: handleAltClickReaction_def handleMasonryReaction_def removeFn_def
          masonryRemove_def Let_def split: option.splits)
qed

lemma gesture_reactionType: "gesture e = Some ty \<Longrightarrow> reactionType e = Some ty"
  by (auto simp add: gesture_def reactionType_def split: if_splits)

lemma reactionType_contextmenu_primary:
  "reactionType (altEvent ContextMenu 0 tg) = Some Like"
  by (simp add: reactionType_def altEvent_def)


text \<open>
  A restore callback handed to the queue holds the reacted item and its position in the
  list at the time of the reaction, which is never negative.
\<close>

lemma handleMasonryReaction_callback:
  assumes "find (hasId fileId) (items s) = Some it" and "tab s = Some t"
  shows "\<exists>n<length (items s).
           items s ! n = it \<and>
           added s (handleMasonryReaction fileId ty None s) =
             [EQueueReaction
                \<lparr>q_fileId = fileId, q_type = ty, q_previewUrl = Some (item_src it),
                 q_restore = Some \<lparr>cb_item = it, cb_index = int n\<rparr>,
                 q_tabId = Some (tab_id t), q_itemIndex = int n, q_item = Some it\<rparr>,
              EOnReaction fileId ty]"
proof -
  from findIndex_Some [OF assms(1)] obtain n where
    n: "n < length (items s)" "findIndex (hasId fileId) (items s) = int n" "items s ! n = it"
    by blast
  have "added s (handleMasonryReaction fileId ty None s) =
             [EQueueReaction
                \<lparr>q_fileId = fileId, q_type = ty, q_previewUrl = Some (item_src it),
                 q_restore = Some \<lparr>cb_item = it, cb_index = int n\<rparr>,
                 q_tabId = Some (tab_id t), q_itemIndex = int n, q_item = Some it\<rparr>,
              EOnReaction fileId ty]"
    by (rule added_append) (simp add: handleMasonryReaction_def assms n Let_def)
  with n show ?thesis by blast
qed

section \<open>The restore callback of a queued reaction\<close>

text \<open>
  C2, as the code has it. The callback closes over an index that is not negative. It
  leaves the state as it is when the owning tab is not the active one, and when an item
  with the same id is already in the list. Otherwise, when the collaborator offers
  \<^verbatim>\<open>restore\<close>, \<^verbatim>\<open>add\<close> or \<^verbatim>\<open>insert\<close>, the first of them in that order is called with the
  item and the unclamped index, and the component itself neither inserts nor asks for a
  reflow; when it offers none, or is not mounted, the item is inserted at
  min(index, length), and \<^verbatim>\<open>refreshLayout\<close> is called after a tick only when the
  collaborator is mounted and has that method.
\<close>

theorem restoreItem_behaviour:
  "0 \<le> cb_index cb \<Longrightarrow>
     (\<not> isTabActive tid \<longrightarrow> restoreItem cb tid isTabActive s = s)
     \<and> (item_id (cb_item cb) \<in> item_id ` set (items s) \<longrightarrow> restoreItem cb tid isTabActive s = s)
     \<and> (isTabActive tid \<and> item_id (cb_item cb) \<notin> item_id ` set (items s) \<longrightarrow>
          (case delegate (masonry s) of
             Some (f, ev) \<Rightarrow>
               items (restoreItem cb tid isTabActive s) = f (cb_item cb) (cb_index cb) (items s)
               \<and> added s (restoreItem cb tid isTabActive s) = [ev (cb_item cb) (cb_index cb)]
           | None \<Rightarrow>
               items (restoreItem cb tid isTabActive s) =
                 take (min (nat (cb_index cb)) (length (items s))) (items s)
                 @ cb_item cb # drop (min (nat (cb_index cb)) (length (items s))) (items s)
               \<and> added s (restoreItem cb tid isTabActive s) =
                   (if refreshable (masonry s)
                    then [ENextTick, ERefreshLayout (items (restoreItem cb tid isTabActive s))]
                    else [])))"
proof (intro conjI impI)
  show "restoreItem cb tid isTabActive s = s" if "\<not> isTabActive tid"
    using that by (simp add: restoreItem_def)
  show "restoreItem cb tid isTabActive s = s"
    if "item_id (cb_item cb) \<in> item_id ` set (items s)"
    using that by (simp add: restoreItem_def findIndex_absent find_hasId_None)
next
  assume i: "0 \<le> cb_index cb"
    and a: "isTabActive tid \<and> item_id (cb_item cb) \<notin> item_id ` set (items s)"
  then have n: "findIndex (hasId (item_id (cb_item cb))) (items s) = - 1"
    by (simp add: findIndex_absent find_hasId_None)
  show "case delegate (masonry s) of
             Some (f, ev) \<Rightarrow>
               items (restoreItem cb tid isTabActive s) = f (cb_item cb) (cb_index cb) (items s)
               \<and> added s (restoreItem cb tid isTabActive s) = [ev (cb_item cb) (cb_index cb)]
           | None \<Rightarrow>
               items (restoreItem cb tid isTabActive s) =
                 take (min (nat (cb_index cb)) (length (items s))) (items s)
                 @ cb_item cb # drop (min (nat (cb_index cb)) (length (items s))) (items s)
               \<and> added s (restoreItem cb tid isTabActive s) =
                   (if refreshable (masonry s)
                    then [ENextTick, ERefreshLayout (items (restoreItem cb tid isTabActive s))]
                    else [])"
    using a n
    by (simp add: restoreItem_def delegate_def restoreFallback_eq [OF i] Let_def added_def
          split: option.splits)
qed

theorem restoreItem_behaviour_witness:
  "items (restoreItem sampleCallback 1 (isTabActiveFor 1) gridState)
      = [mkItem 1, mkItem 3, mkItem 2]
   \<and> added gridState (restoreItem sampleCallback 1 (isTabActiveFor 1) gridState)
      = [ENextTick, ERefreshLayout [mkItem 1, mkItem 3, mkItem 2]]
   \<and> restoreItem sampleCallback 1 (isTabActiveFor 2) gridState = gridState"
  using restoreItem_behaviour [of sampleCallback "isTabActiveFor 1" 1 gridState]
        restoreItem_behaviour [of sampleCallback "isTabActiveFor 2" 1 gridState]
  by (simp add: sampleCallback_def gridState_def freshState_def mockMasonry_def mkItem_def
        isTabActiveFor_def delegate_def refreshable_def)

text \<open>
  Without a mounted collaborator the callback of an active tab puts the item back at its
  index and asks for no reflow.
\<close>

theorem restoreItem_no_reflow_counterexample:
  "isTabActiveFor 1 1
   \<and> items (restoreItem middleCallback 1 (isTabActiveFor 1) detachedState)
       = [mkItem 1, mkItem 2, mkItem 3]
   \<and> trace (restoreItem middleCallback 1 (isTabActiveFor 1) detachedState) = []"
  by (simp add: restoreItem_def restoreFallback_def middleCallback_def detachedState_def
        freshState_def isTabActiveFor_def mkItem_def findIndex_def hasId_def spliceInsert_def
        spliceStart_def)


section \<open>ALT and a mouse button on a tile\<close>

text \<open>
  C6, as the code has it. With ALT held no mouse event on the grid opens the overlay.
  When the tile resolves to the id of an item of the list, the default is prevented,
  propagation is stopped, the item is handed to the collaborator for removal and a
  reaction is enqueued and reported: like for a click with button 0, dislike for the
  contextmenu event of button 2, love for a mousedown with button 1. When the container
  is missing or the tile does not resolve, the handlers do nothing; only the
  \<^verbatim>\<open>.prevent\<close> modifier of the contextmenu listener has acted.
\<close>

theorem alt_click_reactions:
  "altKey e \<Longrightarrow>
     EOpenFromClick \<notin> set (added s (dispatchMouse e s))
     \<and> (\<forall>fid it ty.
          masonryContainer s \<and> resolveTile (target e) (items s) = Some fid
          \<and> find (hasId fid) (items s) = Some it \<and> gesture e = Some ty \<longrightarrow>
            (\<exists>q. added s (dispatchMouse e s) =
                    (if ev_type e = ContextMenu then [EPreventDefault] else [])
                    @ [EPreventDefault, EStopPropagation]
                    @ (case masonry s of None \<Rightarrow> [] | Some m \<Rightarrow> [EMasonryRemove it])
                    @ [EQueueReaction q, EOnReaction fid ty]
                  \<and> q_fileId q = fid \<and> q_type q = ty \<and> q_item q = Some it))
     \<and> (\<not> masonryContainer s \<or> resolveTile (target e) (items s) = None \<longrightarrow>
          added s (dispatchMouse e s) =
            (if ev_type e = ContextMenu then [EPreventDefault] else []))"
proof (intro conjI allI impI)
  assume a: "altKey e"
  then show "EOpenFromClick \<notin> set (added s (dispatchMouse e s))"
    by (simp add: quiet_added dispatchMouse_quiet)
next
  fix fid it ty
  assume a: "altKey e"
    and h: "masonryContainer s \<and> resolveTile (target e) (items s) = Some fid
          \<and> find (hasId fid) (items s) = Some it \<and> gesture e = Some ty"
  define s0 where "s0 = (if ev_type e = ContextMenu then log EPreventDefault s else s)"
  have s0: "masonryContainer s0" "items s0 = items s" "masonry s0 = masonry s"
    "trace s0 = trace s @ (if ev_type e = ContextMenu then [EPreventDefault] else [])"
    using h by (simp_all add: s0_def)
  from h have g: "gesture e = Some ty" by simp
  have d: "dispatchMouse e s = handleAltClickReaction e fid s0"
  proof (cases "ev_type e")
    case Click
    with a h s0 show ?thesis
      by (simp add: dispatchMouse_def onMasonryClick_def s0_def handleAltClickOnMasonry_resolved)
  next
    case ContextMenu
    with a h s0 handleAltClickOnMasonry_resolved [of s0 e fid] show ?thesis
      by (simp add: dispatchMouse_def onMasonryClick_def s0_def)
  next
    case MouseDown
    with g have "button e = 1" by (simp add: gesture_def split: if_splits)
    with MouseDown a h show ?thesis
      by (simp add: dispatchMouse_def onMasonryMouseDown_def s0_def
            handleAltClickOnMasonry_resolved)
  qed
  from h s0 have f0: "find (hasId fid) (items s0) = Some it" by simp
  from handleAltClickReaction_trace [OF f0 gesture_reactionType [OF g]] obtain q where
    q: "trace (handleAltClickReaction e fid s0) =
            trace s0 @ [EPreventDefault, EStopPropagation]
            @ (case masonry s0 of None \<Rightarrow> [] | Some m \<Rightarrow> [EMasonryRemove it])
            @ [EQueueReaction q, EOnReaction fid ty]"
      "q_fileId q = fid" "q_type q = ty" "q_item q = Some it"
    by blast
  have "added s (dispatchMouse e s) =
                    (if ev_type e = ContextMenu then [EPreventDefault] else [])
                    @ [EPreventDefault, EStopPropagation]
                    @ (case masonry s of None \<Rightarrow> [] | Some m \<Rightarrow> [EMasonryRemove it])
                    @ [EQueueReaction q, EOnReaction fid ty]"
    by (rule added_append) (simp add: d q(1) s0)
  with q show "\<exists>q. added s (dispatchMouse e s) =
                    (if ev_type e = ContextMenu then [EPreventDefault] else [])
                    @ [EPreventDefault, EStopPropagation]
                    @ (case masonry s of None \<Rightarrow> [] | Some m \<Rightarrow> [EMasonryRemove it])
                    @ [EQueueReaction q, EOnReaction fid ty]
                  \<and> q_fileId q = fid \<and> q_type q = ty \<and> q_item q = Some it"
    by blast
next
  assume a: "altKey e"
    and u: "\<not> masonryContainer s \<or> resolveTile (target e) (items s) = None"
  define s0 where "s0 = (if ev_type e = ContextMenu then log EPreventDefault s else s)"
  from u have u0: "\<not> masonryContainer s0 \<or> resolveTile (target e) (items s0) = None"
    by (simp add: s0_def)
  have "dispatchMouse e s = s0"
    using a handleAltClickOnMasonry_unresolved [OF u] handleAltClickOnMasonry_unresolved [OF u0]
    by (cases "ev_type e")
       (simp_all add: dispatchMouse_def onMasonryClick_def onMasonryMouseDown_def s0_def)
  then show "added s (dispatchMouse e s) =
            (if ev_type e = ContextMenu then [EPreventDefault] else [])"
    by (simp add: s0_def added_def)
qed

theorem alt_click_reactions_witness:
  "EOpenFromClick \<notin> set (added gridState (dispatchMouse (altEvent ContextMenu 2 (Tile (AttrNum 3) None)) gridState))
   \<and> (\<exists>q. added gridState (dispatchMouse (altEvent ContextMenu 2 (Tile (AttrNum 3) None)) gridState) =
            [EPreventDefault, EPreventDefault, EStopPropagation, EMasonryRemove (mkItem 3),
             EQueueReaction q, EOnReaction 3 Dislike]
          \<and> q_fileId q = 3 \<and> q_type q = Dislike \<and> q_item q = Some (mkItem 3))"
  using alt_click_reactions [of "altEvent ContextMenu 2 (Tile (AttrNum 3) None)" gridState]
  by (simp add: altEvent_def gridState_def freshState_def resolveTile_def gesture_def
        hasId_def mkItem_def)

text \<open>
  On a tile without \<^verbatim>\<open>data-item-id\<close> and without an image, ALT and a left click
  enqueue nothing and prevent nothing.
\<close>

theorem alt_click_unresolved_counterexample:
  "altKey (altEvent Click 0 (Tile AttrMissing None))
   \<and> masonryContainer gridState
   \<and> trace (dispatchMouse (altEvent Click 0 (Tile AttrMissing None)) gridState) = []"
  by (simp add: altEvent_def gridState_def freshState_def dispatchMouse_def onMasonryClick_def
        handleAltClickOnMasonry_def)

section \<open>A reaction to an id that is not in the list\<close>

text \<open>
  C9. When no item of the list has the given id, \<^verbatim>\<open>handleMasonryReaction\<close> leaves the
  list as it is and calls no remove closure; it still calls \<^verbatim>\<open>queueReaction\<close>, with no
  preview, no restore callback, index -1 and no item, and then \<^verbatim>\<open>onReaction\<close>.
\<close>

theorem handleMasonryReaction_unknown_id:
  "fileId \<notin> item_id ` set (items s) \<Longrightarrow>
     handleMasonryReaction fileId ty removeItem s =
       s\<lparr>trace := trace s @
           [EQueueReaction
              \<lparr>q_fileId = fileId, q_type = ty, q_previewUrl = None, q_restore = None,
               q_tabId = map_option tab_id (tab s), q_itemIndex = - 1, q_item = None\<rparr>,
            EOnReaction fileId ty]\<rparr>
     \<and> items (handleMasonryReaction fileId ty removeItem s) = items s"
  by (simp add: handleMasonryReaction_def find_hasId_None [symmetric] log_def)

theorem handleMasonryReaction_unknown_id_witness:
  "handleMasonryReaction 7 Like (Some removeFn) gridState =
       gridState\<lparr>trace :=
           [EQueueReaction
              \<lparr>q_fileId = 7, q_type = Like, q_previewUrl = None, q_restore = None,
               q_tabId = Some 1, q_itemIndex = - 1, q_item = None\<rparr>,
            EOnReaction 7 Like]\<rparr>
   \<and> items (handleMasonryReaction 7 Like (Some removeFn) gridState) = [mkItem 1, mkItem 3]"
  using handleMasonryReaction_unknown_id [of 7 gridState Like "Some removeFn"]
  by (simp add: gridState_def freshState_def cursorTab_def mkItem_def)


section \<open>Removing an item for the file viewer\<close>

text \<open>
  C10. One call of the \<^verbatim>\<open>remove-from-masonry\<close> callback removes at most one entry of the
  list: with the collaborator mounted, the first entry whose id is that of the given item;
  with the ref null it throws and removes none. A call when no item has that id leaves
  the list, and indeed the state, as it is. With unique ids a second call therefore
  changes nothing.
\<close>

theorem removeFromMasonry_idempotent:
  "(\<forall>m mi. masonry s = Some m \<and> find (hasId (item_id it)) (items s) = Some mi \<longrightarrow>
       removeFromMasonry it s = Completed (s\<lparr>items := remove1 mi (items s)\<rparr>))
   \<and> (masonry s = None \<longrightarrow> removeFromMasonry it s = Rejected ''TypeError'' s)
   \<and> length (items s) \<le> Suc (length (items (stateOf (removeFromMasonry it s))))
   \<and> (item_id it \<notin> item_id ` set (items s) \<longrightarrow> stateOf (removeFromMasonry it s) = s)
   \<and> (distinct (map item_id (items s)) \<longrightarrow>
        items (stateOf (removeFromMasonry it (stateOf (removeFromMasonry it s))))
          = items (stateOf (removeFromMasonry it s)))"
proof (intro conjI allI impI)
  fix m mi
  assume "masonry s = Some m \<and> find (hasId (item_id it)) (items s) = Some mi"
  then show "removeFromMasonry it s = Completed (s\<lparr>items := remove1 mi (items s)\<rparr>)"
    by (simp add: removeFromMasonry_found)
next
  assume "masonry s = None"
  then show "removeFromMasonry it s = Rejected ''TypeError'' s"
    by (simp add: removeFromMasonry_def)
next
  show "length (items s) \<le> Suc (length (items (stateOf (removeFromMasonry it s))))"
  proof (cases "masonry s")
    case None
    then show ?thesis by (simp add: removeFromMasonry_def)
  next
    case (Some m)
    show ?thesis
    proof (cases "find (hasId (item_id it)) (items s)")
      case None
      then show ?thesis
        by (simp add: removeFromMasonry_absent find_hasId_None)
    next
      case (Some mi)
      from find_Some_mem [OF Some] have "mi \<in> set (items s)" by simp
      with removeFromMasonry_found [OF \<open>masonry s = Some m\<close> Some] show ?thesis
        by (simp add: length_remove1)
    qed
  qed
next
  assume "item_id it \<notin> item_id ` set (items s)"
  then show "stateOf (removeFromMasonry it s) = s" by (rule removeFromMasonry_absent)
next
  assume d: "distinct (map item_id (items s))"
  show "items (stateOf (removeFromMasonry it (stateOf (removeFromMasonry it s))))
          = items (stateOf (removeFromMasonry it s))"
  proof (cases "masonry s")
    case None
    then show ?thesis by (simp add: removeFromMasonry_def)
  next
    case (Some m)
    show ?thesis
    proof (cases "find (hasId (item_id it)) (items s)")
      case None
      then show ?thesis
        by (simp add: removeFromMasonry_absent find_hasId_None)
    next
      case (Some mi)
      from removeFromMasonry_found [OF \<open>masonry s = Some m\<close> Some]
      have r: "stateOf (removeFromMasonry it s) = s\<lparr>items := remove1 mi (items s)\<rparr>"
        by simp
      from remove1_drops_id [OF d Some]
      have "item_id it \<notin> item_id ` set (items (s\<lparr>items := remove1 mi (items s)\<rparr>))"
        by simp
      from removeFromMasonry_absent [OF this] r show ?thesis by simp
    qed
  qed
qed

theorem removeFromMasonry_idempotent_witness:
  "removeFromMasonry (mkItem 3) gridState = Completed (gridState\<lparr>items := [mkItem 1]\<rparr>)
   \<and> removeFromMasonry (mkItem 3) detachedState = Rejected ''TypeError'' detachedState
   \<and> stateOf (removeFromMasonry (mkItem 7) gridState) = gridState
   \<and> items (stateOf (removeFromMasonry (mkItem 3) (stateOf (removeFromMasonry (mkItem 3) gridState))))
       = [mkItem 1]"
proof -
  have f: "find (hasId (item_id (mkItem 3))) (items gridState) = Some (mkItem 3)"
    and m: "masonry gridState = Some mockMasonry"
    and d: "distinct (map item_id (items gridState))"
    and a: "item_id (mkItem 7) \<notin> item_id ` set (items gridState)"
    and n: "masonry detachedState = None"
    by (simp_all add: gridState_def detachedState_def freshState_def mkItem_def hasId_def)
  from removeFromMasonry_idempotent [of gridState "mkItem 3"] f m
  have 1: "removeFromMasonry (mkItem 3) gridState
             = Completed (gridState\<lparr>items := remove1 (mkItem 3) (items gridState)\<rparr>)"
    by blast
  from removeFromMasonry_idempotent [of gridState "mkItem 3"] d
  have 2: "items (stateOf (removeFromMasonry (mkItem 3) (stateOf (removeFromMasonry (mkItem 3) gridState))))
             = items (stateOf (removeFromMasonry (mkItem 3) gridState))"
    by blast
  from removeFromMasonry_idempotent [of detachedState "mkItem 3"] n
  have 3: "removeFromMasonry (mkItem 3) detachedState = Rejected ''TypeError'' detachedState"
    by blast
  from removeFromMasonry_idempotent [of gridState "mkItem 7"] a
  have 4: "stateOf (removeFromMasonry (mkItem 7) gridState) = gridState"
    by blast
  have r: "remove1 (mkItem 3) (items gridState) = [mkItem 1]"
    by (simp add: gridState_def mkItem_def)
  from 1 2 3 4 r show ?thesis by simp
qed

end
